theory Spec2Isabelle
  imports Main "HOL-Library.AList" "HOL-Library.Sublist"
begin

section \<open>The backing store as the manager sees it\<close>

text \<open>
  \<open>CompathManager\<close> is an abstract manager: the pathway and protein models, the
  session and the query facility belong to its subclasses and to the ORM. The manager
  reads a protein through \<open>hgnc_symbol\<close> and \<open>get_pathways_ids()\<close>, and a pathway
  through its identifier column, \<open>name\<close>, \<open>proteins\<close> and \<open>get_gene_set()\<close>.
  A row is a record of exactly these attributes; a table is the list of its rows in
  retrieval order, so that two rows with equal columns are still two rows.
\<close>

record protein =
  hgnc_symbol :: string
  pathways :: "string list"

record pathway =
  standard_identifier :: string
  name :: string
  proteins :: "protein list"

record store =
  pathway_table :: "pathway list"
  protein_table :: "protein list"

text \<open>
  Modelled from the spec: \<open>Protein.get_pathways_ids\<close> is a method of the protein
  model, which is not part of this repository. The spec describes it as the accessor
  "returning the set of pathway identifiers it belongs to": every identifier of the
  protein's \<open>pathways\<close> once.
\<close>

definition get_pathways_ids :: "protein \<Rightarrow> string list" where
  "get_pathways_ids p = remdups (pathways p)"

text \<open>
  Modelled from the spec: \<open>Pathway.get_gene_set\<close> is a method of the pathway model,
  which is not part of this repository. The spec describes its value as the "set of all
  HGNC symbols in that pathway".
\<close>

definition get_gene_set :: "pathway \<Rightarrow> string set" where
  "get_gene_set pw = hgnc_symbol ` set (proteins pw)"

datatype error =
    CompathManagerPathwayModelError string
  | CompathManagerProteinModelError string
  | AttributeError
  | MultipleResultsFound
  | BackendError string

section \<open>Construction\<close>

text \<open>
  The three class-level variables of a manager class; each is \<open>None\<close> unless the
  subclass sets it.
\<close>

record ('pm, 'col, 'prm) manager_class =
  pathway_model :: "'pm option"
  pathway_model_identifier_column :: "'col option"
  protein_model :: "'prm option"

text \<open>
  \<open>__init__\<close>: \<open>super_init args\<close> is the call \<open>super().__init__(*args, **kwargs)\<close> of
  the base class. The check of \<open>pathway_model_identifier_column\<close> is commented out in
  the source and is therefore no branch here.
\<close>

definition init ::
  "('pm, 'col, 'prm) manager_class \<Rightarrow> ('args \<Rightarrow> error + 'mgr) \<Rightarrow> 'args \<Rightarrow> error + 'mgr" where
  "init cls super_init args =
     (if pathway_model cls = None
      then Inl (CompathManagerPathwayModelError ''did not set class-level variable pathway_model'')
      else if protein_model cls = None
      then Inl (CompathManagerProteinModelError ''did not set class-level variable protein_model'')
      else super_init args)"

definition base_init_ok :: "unit \<Rightarrow> error + unit" where
  "base_init_ok args = Inr ()"

section \<open>Counters and dictionaries\<close>

text \<open>
  A Python \<open>dict\<close> is an association list in insertion order with distinct keys;
  \<open>d[k] = v\<close> is \<open>AList.update k v d\<close>, which replaces the value of a present key in
  place and appends a new key. A \<open>Counter\<close> is such a dictionary of counts; reading a
  missing key gives 0.
\<close>

definition counter_incr :: "'k \<Rightarrow> ('k \<times> nat) list \<Rightarrow> ('k \<times> nat) list" where
  "counter_incr k c = AList.update k (case map_of c k of None \<Rightarrow> 1 | Some n \<Rightarrow> n + 1) c"

definition Counter :: "'k list \<Rightarrow> ('k \<times> nat) list" where
  "Counter xs = fold counter_incr xs []"

definition counter_get :: "('k \<times> nat) list \<Rightarrow> 'k \<Rightarrow> nat" where
  "counter_get c k = (case map_of c k of None \<Rightarrow> 0 | Some n \<Rightarrow> n)"

section \<open>Lookups\<close>

definition one_or_none :: "'a list \<Rightarrow> error + 'a option" where
  "one_or_none rows =
     (case rows of
        [] \<Rightarrow> Inr None
      | [r] \<Rightarrow> Inr (Some r)
      | _ \<Rightarrow> Inl MultipleResultsFound)"

definition get_pathway_by_id :: "store \<Rightarrow> string \<Rightarrow> error + pathway option" where
  "get_pathway_by_id s pathway_id =
     one_or_none (filter (\<lambda>pw. standard_identifier pw = pathway_id) (pathway_table s))"

definition get_pathway_by_name :: "store \<Rightarrow> string \<Rightarrow> pathway option" where
  "get_pathway_by_name s pathway_name =
     (case filter (\<lambda>pw. name pw = pathway_name) (pathway_table s) of
        [] \<Rightarrow> None
      | pw # _ \<Rightarrow> Some pw)"

definition get_all_pathways :: "store \<Rightarrow> pathway list" where
  "get_all_pathways s = pathway_table s"

definition is_populated :: "store \<Rightarrow> bool" where
  "is_populated s = (0 < length (pathway_table s))"

section \<open>The enrichment query\<close>

record enrichment =
  pathway_id :: string
  pathway_name :: string
  mapped_proteins :: nat
  pathway_size :: nat
  pathway_gene_set :: "string set"

definition query_proteins_in_hgnc_list :: "store \<Rightarrow> string list \<Rightarrow> protein list" where
  "query_proteins_in_hgnc_list s gene_set =
     filter (\<lambda>p. hgnc_symbol p \<in> set gene_set) (protein_table s)"

definition enrichment_record :: "string \<Rightarrow> nat \<Rightarrow> pathway \<Rightarrow> enrichment" where
  "enrichment_record pid proteins_mapped pw =
     \<lparr>pathway_id = pid,
      pathway_name = name pw,
      mapped_proteins = proteins_mapped,
      pathway_size = card (get_gene_set pw),
      pathway_gene_set = get_gene_set pw\<rparr>"

text \<open>
  The loop over \<open>pathway_counter.items()\<close>. \<open>get_pathway_by_id\<close> answers \<open>None\<close>
  for an identifier without a row; the loop then calls \<open>get_gene_set\<close> on \<open>None\<close>,
  which raises \<open>AttributeError\<close>. The loop catches nothing.
\<close>

fun enrich ::
  "store \<Rightarrow> (string \<times> nat) list \<Rightarrow> (string \<times> enrichment) list
     \<Rightarrow> error + (string \<times> enrichment) list" where
  "enrich s [] enrichment_results = Inr enrichment_results"
| "enrich s ((pid, proteins_mapped) # items) enrichment_results =
     (case get_pathway_by_id s pid of
        Inl e \<Rightarrow> Inl e
      | Inr None \<Rightarrow> Inl AttributeError
      | Inr (Some pw) \<Rightarrow>
          enrich s items
            (AList.update pid (enrichment_record pid proteins_mapped pw) enrichment_results))"

definition pathway_counter :: "store \<Rightarrow> string list \<Rightarrow> (string \<times> nat) list" where
  "pathway_counter s gene_set =
     Counter (concat (map get_pathways_ids (query_proteins_in_hgnc_list s gene_set)))"

definition query_gene_set :: "store \<Rightarrow> string list \<Rightarrow> error + (string \<times> enrichment) list" where
  "query_gene_set s gene_set = enrich s (pathway_counter s gene_set) []"

section \<open>Name queries and statistics\<close>





definition get_pathway_size_distribution :: "store \<Rightarrow> (string \<times> nat) list" where
  "get_pathway_size_distribution s =
     fold (\<lambda>pw d. AList.update (name pw) (length (proteins pw)) d)
       (filter (\<lambda>pw. proteins pw \<noteq> []) (get_all_pathways s)) []"

definition export_genesets :: "store \<Rightarrow> (string \<times> string set) list" where
  "export_genesets s =
     fold (\<lambda>pw d. AList.update (name pw) (hgnc_symbol ` set (proteins pw)) d)
       (pathway_table s) []"

definition count_genes :: "pathway \<Rightarrow> (string \<times> nat) list \<Rightarrow> (string \<times> nat) list" where
  "count_genes pw gene_counter =
     (if proteins pw = [] then gene_counter
      else fold (\<lambda>gene c. counter_incr (hgnc_symbol gene) c) (proteins pw) gene_counter)"

definition get_gene_distribution :: "store \<Rightarrow> (string \<times> nat) list" where
  "get_gene_distribution s = fold count_genes (get_all_pathways s) []"

section \<open>The store of the round-trip example\<close>

definition tp53 :: protein where
  "tp53 = \<lparr>hgnc_symbol = ''TP53'', pathways = [''1'', ''2'']\<rparr>"

definition brca1 :: protein where
  "brca1 = \<lparr>hgnc_symbol = ''BRCA1'', pathways = [''1'']\<rparr>"

definition pw1 :: pathway where
  "pw1 = \<lparr>standard_identifier = ''1'', name = ''PW1'', proteins = [tp53, brca1]\<rparr>"

definition pw2 :: pathway where
  "pw2 = \<lparr>standard_identifier = ''2'', name = ''PW2'', proteins = [tp53]\<rparr>"

definition example_store :: store where
  "example_store = \<lparr>pathway_table = [pw1, pw2], protein_table = [tp53, brca1]\<rparr>"

text \<open>
  The two records that the round-trip example expects for the query \<open>{TP53}\<close>.
\<close>

definition expected_pw1 :: enrichment where
  "expected_pw1 =
     \<lparr>pathway_id = ''1'', pathway_name = ''PW1'', mapped_proteins = 1, pathway_size = 2,
      pathway_gene_set = {''TP53'', ''BRCA1''}\<rparr>"

definition expected_pw2 :: enrichment where
  "expected_pw2 =
     \<lparr>pathway_id = ''2'', pathway_name = ''PW2'', mapped_proteins = 1, pathway_size = 1,
      pathway_gene_set = {''TP53''}\<rparr>"

section \<open>Further stores and notions of the specification\<close>

text \<open>
  Two protein rows with the same gene symbol, both members of pathway \<open>1\<close>.
\<close>

definition tp53_a :: protein where
  "tp53_a = \<lparr>hgnc_symbol = ''TP53'', pathways = [''1'']\<rparr>"

definition tp53_b :: protein where
  "tp53_b = \<lparr>hgnc_symbol = ''TP53'', pathways = [''1'', ''2'']\<rparr>"

definition duplicate_symbol_store :: store where
  "duplicate_symbol_store =
     \<lparr>pathway_table =
        [\<lparr>standard_identifier = ''1'', name = ''PW1'', proteins = [tp53_a, tp53_b]\<rparr>,
         \<lparr>standard_identifier = ''2'', name = ''PW2'', proteins = [tp53_b]\<rparr>],
      protein_table = [tp53_a, tp53_b]\<rparr>"

text \<open>
  Two protein rows with the same gene symbol, one in pathway \<open>1\<close> and one in pathway
  \<open>2\<close>, and the two records that the query \<open>{TP53}\<close> gives on this store.
\<close>

definition tp53_in_1 :: protein where
  "tp53_in_1 = \<lparr>hgnc_symbol = ''TP53'', pathways = [''1'']\<rparr>"

definition tp53_in_2 :: protein where
  "tp53_in_2 = \<lparr>hgnc_symbol = ''TP53'', pathways = [''2'']\<rparr>"

definition split_symbol_store :: store where
  "split_symbol_store =
     \<lparr>pathway_table =
        [\<lparr>standard_identifier = ''1'', name = ''PW1'', proteins = [tp53_in_1]\<rparr>,
         \<lparr>standard_identifier = ''2'', name = ''PW2'', proteins = [tp53_in_2]\<rparr>],
      protein_table = [tp53_in_1, tp53_in_2]\<rparr>"

definition split_pw1 :: enrichment where
  "split_pw1 =
     \<lparr>pathway_id = ''1'', pathway_name = ''PW1'', mapped_proteins = 1, pathway_size = 1,
      pathway_gene_set = {''TP53''}\<rparr>"

definition split_pw2 :: enrichment where
  "split_pw2 =
     \<lparr>pathway_id = ''2'', pathway_name = ''PW2'', mapped_proteins = 1, pathway_size = 1,
      pathway_gene_set = {''TP53''}\<rparr>"

text \<open>
  A protein row that names pathway \<open>9\<close>, for which the pathway table has no row.
\<close>

definition tp53_dangling :: protein where
  "tp53_dangling = \<lparr>hgnc_symbol = ''TP53'', pathways = [''1'', ''9'']\<rparr>"

definition dangling_store :: store where
  "dangling_store = \<lparr>pathway_table = [pw1], protein_table = [tp53_dangling, brca1]\<rparr>"

text \<open>
  Two pathways of the same name, the first without members.
\<close>

definition memberless_pw :: pathway where
  "memberless_pw = \<lparr>standard_identifier = ''1'', name = ''PW'', proteins = []\<rparr>"

definition namesake_pw :: pathway where
  "namesake_pw = \<lparr>standard_identifier = ''2'', name = ''PW'', proteins = [tp53]\<rparr>"

definition collision_store :: store where
  "collision_store = \<lparr>pathway_table = [memberless_pw, namesake_pw], protein_table = [tp53]\<rparr>"

text \<open>
  The example store with a third pathway that has no members and a name of its own.
\<close>

definition pw3 :: pathway where
  "pw3 = \<lparr>standard_identifier = ''3'', name = ''PW3'', proteins = []\<rparr>"

definition memberless_store :: store where
  "memberless_store = \<lparr>pathway_table = [pw1, pw3], protein_table = [tp53, brca1]\<rparr>"

text \<open>
  A manager class that sets both models and leaves the identifier column unset.
\<close>

definition class_without_identifier :: "(unit, unit, unit) manager_class" where
  "class_without_identifier =
     \<lparr>pathway_model = Some (), pathway_model_identifier_column = None, protein_model = Some ()\<rparr>"

definition class_without_pathway :: "(unit, unit, unit) manager_class" where
  "class_without_pathway =
     \<lparr>pathway_model = None, pathway_model_identifier_column = Some (), protein_model = Some ()\<rparr>"

definition class_without_protein :: "(unit, unit, unit) manager_class" where
  "class_without_protein =
     \<lparr>pathway_model = Some (), pathway_model_identifier_column = Some (), protein_model = None\<rparr>"



text \<open>
  The two directions of the membership relation agree: a protein row that names a
  pathway identifier is one of the proteins of every pathway row with that identifier.
\<close>

definition membership_consistent :: "store \<Rightarrow> bool" where
  "membership_consistent s \<longleftrightarrow>
     (\<forall>p \<in> set (protein_table s). \<forall>pw \<in> set (pathway_table s).
        standard_identifier pw \<in> set (get_pathways_ids p) \<longrightarrow> p \<in> set (proteins pw))"

text \<open>
  The specification's reading of the gene distribution: the pathways whose membership
  contains the symbol \<open>g\<close>, each pathway once.
\<close>

definition pathways_with_gene :: "store \<Rightarrow> string \<Rightarrow> pathway list" where
  "pathways_with_gene s g = filter (\<lambda>pw. g \<in> get_gene_set pw) (pathway_table s)"

text \<open>
  The proteins of the query that name the pathway identifier \<open>k\<close>.
\<close>

definition matched_in :: "store \<Rightarrow> string list \<Rightarrow> string \<Rightarrow> protein list" where
  "matched_in s gene_set k =
     filter (\<lambda>p. k \<in> set (get_pathways_ids p)) (query_proteins_in_hgnc_list s gene_set)"

section \<open>Counters\<close>

lemma map_of_counter_incr:
  "map_of (counter_incr k c) = (map_of c)(k \<mapsto> (case map_of c k of None \<Rightarrow> 1 | Some n \<Rightarrow> n + 1))"
  by (simp add: counter_incr_def update_conv')

lemma counter_get_incr:
  "counter_get (counter_incr k c) k' = counter_get c k' + (if k' = k then 1 else 0)"
  by (simp add: counter_get_def map_of_counter_incr split: option.splits)

lemma keys_counter_incr: "fst ` set (counter_incr k c) = insert k (fst ` set c)"
  by (simp add: counter_incr_def dom_update)

lemma distinct_counter_incr:
  "distinct (map fst c) \<Longrightarrow> distinct (map fst (counter_incr k c))"
  by (simp add: counter_incr_def distinct_update)

lemma counter_get_fold:
  "counter_get (fold counter_incr xs c) k = counter_get c k + count_list xs k"
  by (induction xs arbitrary: c) (simp_all add: counter_get_incr)

lemma keys_fold_counter_incr:
  "fst ` set (fold counter_incr xs c) = fst ` set c \<union> set xs"
  by (induction xs arbitrary: c) (auto simp: keys_counter_incr)

lemma distinct_fold_counter_incr:
  "distinct (map fst c) \<Longrightarrow> distinct (map fst (fold counter_incr xs c))"
  by (induction xs arbitrary: c) (simp_all add: distinct_counter_incr)

lemma counter_get_Counter: "counter_get (Counter xs) k = count_list xs k"
  unfolding Counter_def counter_get_fold by (simp add: counter_get_def)

lemma keys_Counter: "fst ` set (Counter xs) = set xs"
  by (simp add: Counter_def keys_fold_counter_incr)

lemma distinct_Counter: "distinct (map fst (Counter xs))"
  by (simp add: Counter_def distinct_fold_counter_incr)

lemma Counter_entry:
  assumes "(k, n) \<in> set (Counter xs)"
  shows "k \<in> set xs \<and> n = count_list xs k"
proof -
  from assms have "map_of (Counter xs) k = Some n"
    by (simp add: distinct_Counter)
  then have "counter_get (Counter xs) k = n"
    by (simp add: counter_get_def)
  moreover from assms have "k \<in> fst ` set (Counter xs)"
    by force
  ultimately show ?thesis
    by (simp add: counter_get_Counter keys_Counter)
qed

lemma count_list_remdups: "count_list (remdups xs) k = (if k \<in> set xs then 1 else 0)"
  by (induction xs) auto

lemma count_list_concat_ids:
  "count_list (concat (map get_pathways_ids ps)) k
     = length (filter (\<lambda>p. k \<in> set (get_pathways_ids p)) ps)"
  by (induction ps) (simp_all add: get_pathways_ids_def count_list_remdups)

section \<open>The enrichment loop\<close>

lemma enrich_other:
  "enrich s items acc = Inr r \<Longrightarrow> k \<notin> fst ` set items \<Longrightarrow> map_of r k = map_of acc k"
proof (induction items arbitrary: acc)
  case Nil
  then show ?case by simp
next
  case (Cons item items)
  obtain pid n where item: "item = (pid, n)" by (cases item)
  from Cons.prems item obtain pw where
    "enrich s items (AList.update pid (enrichment_record pid n pw) acc) = Inr r"
    by (auto split: sum.splits option.splits)
  moreover from Cons.prems item have "k \<notin> fst ` set items" and "k \<noteq> pid" by auto
  ultimately show ?case
    using Cons.IH by (simp add: update_conv')
qed

lemma enrich_entry:
  "enrich s items acc = Inr r \<Longrightarrow> distinct (map fst items) \<Longrightarrow> (k, n) \<in> set items \<Longrightarrow>
     \<exists>pw. get_pathway_by_id s k = Inr (Some pw) \<and> map_of r k = Some (enrichment_record k n pw)"
proof (induction items arbitrary: acc)
  case Nil
  then show ?case by simp
next
  case (Cons item items)
  obtain pid m where item: "item = (pid, m)" by (cases item)
  from Cons.prems(1) item obtain pw where
    pw: "get_pathway_by_id s pid = Inr (Some pw)" and
    rest: "enrich s items (AList.update pid (enrichment_record pid m pw) acc) = Inr r"
    by (auto split: sum.splits option.splits)
  show ?case
  proof (cases "(k, n) = item")
    case True
    with item Cons.prems(2) have "k \<notin> fst ` set items" and "k = pid" and "n = m" by auto
    with enrich_other [OF rest] pw show ?thesis by (simp add: update_conv')
  next
    case False
    with Cons.prems have "(k, n) \<in> set items" and "distinct (map fst items)" by auto
    with Cons.IH [OF rest] show ?thesis by blast
  qed
qed

lemma enrich_keys:
  "enrich s items acc = Inr r \<Longrightarrow> fst ` set r = fst ` set acc \<union> fst ` set items"
proof (induction items arbitrary: acc)
  case Nil
  then show ?case by simp
next
  case (Cons item items)
  obtain pid n where item: "item = (pid, n)" by (cases item)
  from Cons.prems item obtain pw where
    "enrich s items (AList.update pid (enrichment_record pid n pw) acc) = Inr r"
    by (auto split: sum.splits option.splits)
  from Cons.IH [OF this] item show ?case by (auto simp: dom_update)
qed

lemma enrich_distinct:
  "enrich s items acc = Inr r \<Longrightarrow> distinct (map fst acc) \<Longrightarrow> distinct (map fst r)"
proof (induction items arbitrary: acc)
  case Nil
  then show ?case by simp
next
  case (Cons item items)
  obtain pid n where item: "item = (pid, n)" by (cases item)
  from Cons.prems item obtain pw where
    "enrich s items (AList.update pid (enrichment_record pid n pw) acc) = Inr r"
    by (auto split: sum.splits option.splits)
  from Cons.IH [OF this] Cons.prems(2) show ?case by (simp add: distinct_update)
qed

lemma query_gene_set_entry:
  assumes "query_gene_set s G = Inr r" and "(k, e) \<in> set r"
  shows "\<exists>pw. get_pathway_by_id s k = Inr (Some pw) \<and>
           e = enrichment_record k (length (matched_in s G k)) pw \<and> matched_in s G k \<noteq> []"
proof -
  let ?ids = "concat (map get_pathways_ids (query_proteins_in_hgnc_list s G))"
  from assms(1) have run: "enrich s (Counter ?ids) [] = Inr r"
    by (simp add: query_gene_set_def pathway_counter_def)
  from enrich_distinct [OF run] have "distinct (map fst r)" by simp
  with assms(2) have look: "map_of r k = Some e" by simp
  from assms(2) have "k \<in> fst ` set r" by force
  with enrich_keys [OF run] have "k \<in> fst ` set (Counter ?ids)" by simp
  then obtain n where n: "(k, n) \<in> set (Counter ?ids)" by auto
  from Counter_entry [OF n] have k: "k \<in> set ?ids" and cnt: "n = count_list ?ids k" by simp_all
  from enrich_entry [OF run distinct_Counter n] look obtain pw where
    "get_pathway_by_id s k = Inr (Some pw)" and "e = enrichment_record k n pw" by auto
  moreover from k have "matched_in s G k \<noteq> []"
    by (auto simp: matched_in_def filter_empty_conv)
  ultimately show ?thesis
    using cnt by (auto simp: count_list_concat_ids matched_in_def)
qed

lemma get_pathway_by_id_Some:
  assumes "get_pathway_by_id s k = Inr (Some pw)"
  shows "pw \<in> set (pathway_table s) \<and> standard_identifier pw = k"
proof -
  from assms have "filter (\<lambda>pw. standard_identifier pw = k) (pathway_table s) = [pw]"
    by (auto simp: get_pathway_by_id_def one_or_none_def split: list.splits)
  then have "pw \<in> set (filter (\<lambda>pw. standard_identifier pw = k) (pathway_table s))"
    by simp
  then show ?thesis by simp
qed

lemma get_pathway_by_id_None:
  assumes "\<forall>pw \<in> set (pathway_table s). standard_identifier pw \<noteq> k"
  shows "get_pathway_by_id s k = Inr None"
proof -
  from assms have "filter (\<lambda>pw. standard_identifier pw = k) (pathway_table s) = []"
    by (simp add: filter_empty_conv)
  then show ?thesis by (simp add: get_pathway_by_id_def one_or_none_def)
qed

lemma filter_key_distinct:
  "distinct (map f xs) \<Longrightarrow> length (filter (\<lambda>x. f x = k) xs) \<le> Suc 0"
proof (induction xs)
  case Nil
  then show ?case by simp
next
  case (Cons x xs)
  show ?case
  proof (cases "f x = k")
    case True
    from Cons.prems have "f x \<notin> f ` set xs" by simp
    with True have "\<forall>y \<in> set xs. f y \<noteq> k" by blast
    then have "filter (\<lambda>x. f x = k) xs = []"
      by (simp add: filter_empty_conv)
    with True show ?thesis by simp
  next
    case False
    with Cons show ?thesis by simp
  qed
qed

lemma get_pathway_by_id_unique:
  assumes "distinct (map standard_identifier (pathway_table s))"
  shows "get_pathway_by_id s k \<noteq> Inl e"
proof -
  from filter_key_distinct [OF assms, of k]
  show ?thesis
    by (auto simp: get_pathway_by_id_def one_or_none_def split: list.splits)
qed

lemma enrich_absent:
  "(k, n) \<in> set items \<Longrightarrow> get_pathway_by_id s k = Inr None \<Longrightarrow> \<exists>e. enrich s items acc = Inl e"
proof (induction items arbitrary: acc)
  case Nil
  then show ?case by simp
next
  case (Cons item items)
  obtain pid m where item: "item = (pid, m)" by (cases item)
  show ?case
  proof (cases "pid = k")
    case True
    with item Cons.prems(2) show ?thesis by simp
  next
    case False
    with item Cons.prems have "(k, n) \<in> set items" by auto
    from Cons.IH [OF this Cons.prems(2)] item show ?thesis
      by (auto split: sum.splits option.splits)
  qed
qed

lemma enrich_error:
  "\<forall>k e'. get_pathway_by_id s k \<noteq> Inl e' \<Longrightarrow> enrich s items acc = Inl e \<Longrightarrow> e = AttributeError"
proof (induction items arbitrary: acc)
  case Nil
  then show ?case by simp
next
  case (Cons item items)
  obtain pid m where item: "item = (pid, m)" by (cases item)
  from Cons.prems item Cons.IH [OF Cons.prems(1)] show ?case
    by (auto split: sum.splits option.splits)
qed

section \<open>Dictionaries built by comprehension\<close>

lemma fold_update_keys:
  "fst ` set (fold (\<lambda>x d. AList.update (f x) (g x) d) xs d) = fst ` set d \<union> f ` set xs"
  by (induction xs arbitrary: d) (auto simp: dom_update)

lemma fold_update_distinct:
  "distinct (map fst d) \<Longrightarrow> distinct (map fst (fold (\<lambda>x d. AList.update (f x) (g x) d) xs d))"
  by (induction xs arbitrary: d) (simp_all add: distinct_update)

lemma fold_update_other:
  "\<forall>x \<in> set xs. f x \<noteq> k \<Longrightarrow>
     map_of (fold (\<lambda>x d. AList.update (f x) (g x) d) xs d) k = map_of d k"
  by (induction xs arbitrary: d) (auto simp: update_conv')

lemma fold_update_last:
  assumes "\<forall>q \<in> set after. f q \<noteq> f x"
  shows "map_of (fold (\<lambda>x d. AList.update (f x) (g x) d) (before @ x # after) d) (f x) = Some (g x)"
proof -
  let ?d = "AList.update (f x) (g x) (fold (\<lambda>x d. AList.update (f x) (g x) d) before d)"
  have "map_of (fold (\<lambda>x d. AList.update (f x) (g x) d) after ?d) (f x) = map_of ?d (f x)"
    by (rule fold_update_other [OF assms])
  then show ?thesis by (simp add: update_conv')
qed

lemma fold_update_lookup:
  "map_of (fold (\<lambda>x d. AList.update (f x) (g x) d) xs d) k = Some v \<Longrightarrow>
     map_of d k = Some v \<or> (\<exists>x \<in> set xs. f x = k \<and> v = g x)"
proof (induction xs arbitrary: d)
  case Nil
  then show ?case by simp
next
  case (Cons x xs)
  from Cons.IH [of "AList.update (f x) (g x) d"] Cons.prems
  have "map_of (AList.update (f x) (g x) d) k = Some v \<or> (\<exists>x \<in> set xs. f x = k \<and> v = g x)"
    by simp
  then show ?case
    by (auto simp: update_conv' split: if_splits)
qed

lemma fold_update_entry:
  assumes "(k, v) \<in> set (fold (\<lambda>x d. AList.update (f x) (g x) d) xs [])"
  shows "\<exists>x \<in> set xs. f x = k \<and> v = g x"
proof -
  have "distinct (map fst (fold (\<lambda>x d. AList.update (f x) (g x) d) xs []))"
    by (rule fold_update_distinct) simp
  with assms have "map_of (fold (\<lambda>x d. AList.update (f x) (g x) d) xs []) k = Some v"
    by simp
  from fold_update_lookup [OF this] show ?thesis by simp
qed

lemma counter_get_fold_genes:
  "counter_get (fold (\<lambda>gene c. counter_incr (hgnc_symbol gene) c) ps c) g
     = counter_get c g + count_list (map hgnc_symbol ps) g"
  by (induction ps arbitrary: c) (simp_all add: counter_get_incr)

lemma keys_fold_genes:
  "fst ` set (fold (\<lambda>gene c. counter_incr (hgnc_symbol gene) c) ps c)
     = fst ` set c \<union> hgnc_symbol ` set ps"
  by (induction ps arbitrary: c) (auto simp: keys_counter_incr)

lemma counter_get_count_genes:
  "counter_get (count_genes pw c) g = counter_get c g + count_list (map hgnc_symbol (proteins pw)) g"
  by (simp add: count_genes_def counter_get_fold_genes)

lemma keys_count_genes: "fst ` set (count_genes pw c) = fst ` set c \<union> get_gene_set pw"
  by (simp add: count_genes_def keys_fold_genes get_gene_set_def)

lemma counter_get_fold_count_genes:
  "counter_get (fold count_genes pws c) g
     = counter_get c g + (\<Sum>pw\<leftarrow>pws. count_list (map hgnc_symbol (proteins pw)) g)"
  by (induction pws arbitrary: c) (simp_all add: counter_get_count_genes)

lemma keys_fold_count_genes:
  "fst ` set (fold count_genes pws c) = fst ` set c \<union> (\<Union>pw \<in> set pws. get_gene_set pw)"
  by (induction pws arbitrary: c) (auto simp: keys_count_genes)

lemma count_list_distinct: "distinct xs \<Longrightarrow> count_list xs g = (if g \<in> set xs then 1 else 0)"
  by (induction xs) auto

lemma sum_list_indicator:
  "(\<Sum>x\<leftarrow>xs. if P x then 1 else 0) = length (filter P xs)"
  by (induction xs) simp_all

section \<open>Evaluating the example stores\<close>

lemmas example_defs =
  example_store_def tp53_def brca1_def pw1_def pw2_def

lemmas query_defs =
  query_gene_set_def pathway_counter_def Counter_def counter_incr_def
  query_proteins_in_hgnc_list_def get_pathways_ids_def get_pathway_by_id_def one_or_none_def
  enrichment_record_def get_gene_set_def


lemma example_query_result:
  "query_gene_set example_store [''TP53''] = Inr [(''1'', expected_pw1), (''2'', expected_pw2)]"
  by (simp add: query_defs example_defs expected_pw1_def expected_pw2_def)

lemma example_store_consistent: "membership_consistent example_store"
  by (simp add: membership_consistent_def get_pathways_ids_def example_defs)

lemma duplicate_symbol_store_consistent: "membership_consistent duplicate_symbol_store"
  by (simp add: membership_consistent_def get_pathways_ids_def duplicate_symbol_store_def
      tp53_a_def tp53_b_def)

section \<open>The claims\<close>

subsection \<open>C1: the round-trip example\<close>

text \<open>
  Claim C1. On the store that holds exactly pathway \<open>PW1\<close> (identifier \<open>1\<close>) with
  the members \<open>TP53\<close> and \<open>BRCA1\<close> and pathway \<open>PW2\<close> (identifier \<open>2\<close>) with the
  member \<open>TP53\<close>, \<open>query_gene_set\<close> of the gene set \<open>{TP53}\<close> returns the dictionary
  with exactly the keys \<open>1\<close> and \<open>2\<close>: key \<open>1\<close> holds name \<open>PW1\<close>, one mapped
  protein, size 2 and the gene set \<open>{TP53, BRCA1}\<close>; key \<open>2\<close> holds name \<open>PW2\<close>, one
  mapped protein, size 1 and the gene set \<open>{TP53}\<close>. The list is the dictionary in
  insertion order and determines the mapping.
\<close>

theorem query_gene_set_round_trip:
  "query_gene_set example_store [''TP53''] =
     Inr [(''1'', \<lparr>pathway_id = ''1'', pathway_name = ''PW1'', mapped_proteins = 1,
                   pathway_size = 2, pathway_gene_set = {''TP53'', ''BRCA1''}\<rparr>),
          (''2'', \<lparr>pathway_id = ''2'', pathway_name = ''PW2'', mapped_proteins = 1,
                   pathway_size = 1, pathway_gene_set = {''TP53''}\<rparr>)]"
  by (simp add: query_defs example_defs)

subsection \<open>C2: construction\<close>

text \<open>
  Claim C2, as the code has it. Construction fails with
  \<open>CompathManagerPathwayModelError\<close>, whose message names \<open>pathway_model\<close>, when the
  pathway model is not set, and with \<open>CompathManagerProteinModelError\<close>, whose message
  names \<open>protein_model\<close>, when the pathway model is set and the protein model is not;
  in both cases the constructor of the base class is not reached. When both models are
  set, construction goes on with the constructor of the base class, whatever the
  identifier column is: the identifier column is not checked at construction.
\<close>

theorem init_checks_models:
  "(pathway_model cls = None \<longrightarrow>
      init cls super_init args =
        Inl (CompathManagerPathwayModelError ''did not set class-level variable pathway_model'')) \<and>
   (pathway_model cls \<noteq> None \<and> protein_model cls = None \<longrightarrow>
      init cls super_init args =
        Inl (CompathManagerProteinModelError ''did not set class-level variable protein_model'')) \<and>
   (pathway_model cls \<noteq> None \<and> protein_model cls \<noteq> None \<longrightarrow>
      init cls super_init args = super_init args)"
  by (simp add: init_def)

theorem init_checks_models_witness:
  "pathway_model class_without_pathway = None \<and>
   init class_without_pathway base_init_ok () =
     Inl (CompathManagerPathwayModelError ''did not set class-level variable pathway_model'') \<and>
   pathway_model class_without_protein \<noteq> None \<and> protein_model class_without_protein = None \<and>
   init class_without_protein base_init_ok () =
     Inl (CompathManagerProteinModelError ''did not set class-level variable protein_model'') \<and>
   pathway_model class_without_identifier \<noteq> None \<and>
   protein_model class_without_identifier \<noteq> None \<and>
   init class_without_identifier base_init_ok () = Inr ()"
  using init_checks_models [of class_without_pathway base_init_ok "()"]
    init_checks_models [of class_without_protein base_init_ok "()"]
    init_checks_models [of class_without_identifier base_init_ok "()"]
  by (simp add: class_without_pathway_def class_without_protein_def
      class_without_identifier_def base_init_ok_def)

text \<open>
  The claim as stated includes the identifier column among the bindings whose absence
  stops construction. A class with both models and no identifier column is constructed.
\<close>

theorem init_without_identifier_counterexample:
  "pathway_model_identifier_column class_without_identifier = None \<and>
   init class_without_identifier base_init_ok () = Inr ()"
  by (simp add: init_def class_without_identifier_def base_init_ok_def)

subsection \<open>C3: mapped proteins and pathway size\<close>

text \<open>
  Claim C3, as the code has it. In a store whose two directions of the membership
  relation agree, a record of the dictionary returned by \<open>query_gene_set\<close> has
  \<open>mapped_proteins \<le> pathway_size\<close> whenever the matched protein rows that name the
  record's pathway identifier carry pairwise distinct gene symbols, for every gene set.
\<close>

theorem query_gene_set_mapped_le_size:
  assumes "query_gene_set s G = Inr r" and "(k, e) \<in> set r"
    and "distinct (map hgnc_symbol (matched_in s G k))" and "membership_consistent s"
  shows "mapped_proteins e \<le> pathway_size e"
proof -
  from query_gene_set_entry [OF assms(1,2)] obtain pw where
    pw: "get_pathway_by_id s k = Inr (Some pw)" and
    e: "e = enrichment_record k (length (matched_in s G k)) pw"
    by blast
  from get_pathway_by_id_Some [OF pw] have
    row: "pw \<in> set (pathway_table s)" and ident: "standard_identifier pw = k"
    by simp_all
  from assms(3) have "length (matched_in s G k) = card (hgnc_symbol ` set (matched_in s G k))"
    using distinct_card [of "map hgnc_symbol (matched_in s G k)"] by simp
  also have "\<dots> \<le> card (get_gene_set pw)"
  proof (rule card_mono)
    show "finite (get_gene_set pw)" by (simp add: get_gene_set_def)
    show "hgnc_symbol ` set (matched_in s G k) \<subseteq> get_gene_set pw"
    proof
      fix g assume "g \<in> hgnc_symbol ` set (matched_in s G k)"
      then obtain p where p: "p \<in> set (protein_table s)"
        and "k \<in> set (get_pathways_ids p)" and g: "g = hgnc_symbol p"
        by (auto simp: matched_in_def query_proteins_in_hgnc_list_def)
      with assms(4) row ident have "p \<in> set (proteins pw)"
        by (auto simp: membership_consistent_def)
      with g show "g \<in> get_gene_set pw" by (simp add: get_gene_set_def)
    qed
  qed
  finally show ?thesis by (simp add: e enrichment_record_def)
qed

text \<open>
  The witness is a store in which the symbol \<open>TP53\<close> is carried by two protein rows of
  different pathways, so that the symbols are distinct among the rows of each pathway
  and not in the whole protein table.
\<close>

theorem query_gene_set_mapped_le_size_witness:
  "query_gene_set split_symbol_store [''TP53''] = Inr [(''1'', split_pw1), (''2'', split_pw2)] \<and>
   (''1'', split_pw1) \<in> set [(''1'', split_pw1), (''2'', split_pw2)] \<and>
   distinct (map hgnc_symbol (matched_in split_symbol_store [''TP53''] ''1'')) \<and>
   membership_consistent split_symbol_store \<and>
   mapped_proteins split_pw1 \<le> pathway_size split_pw1"
proof -
  have run: "query_gene_set split_symbol_store [''TP53'']
      = Inr [(''1'', split_pw1), (''2'', split_pw2)]"
    by (simp add: query_defs split_symbol_store_def tp53_in_1_def tp53_in_2_def
        split_pw1_def split_pw2_def)
  have mem: "(''1'', split_pw1) \<in> set [(''1'', split_pw1), (''2'', split_pw2)]"
    by simp
  have sym: "distinct (map hgnc_symbol (matched_in split_symbol_store [''TP53''] ''1''))"
    by (simp add: matched_in_def query_proteins_in_hgnc_list_def get_pathways_ids_def
        split_symbol_store_def tp53_in_1_def tp53_in_2_def)
  have con: "membership_consistent split_symbol_store"
    by (simp add: membership_consistent_def get_pathways_ids_def split_symbol_store_def
        tp53_in_1_def tp53_in_2_def)
  from query_gene_set_mapped_le_size [OF run mem sym con] run mem sym con
  show ?thesis by simp
qed

text \<open>
  Without the distinct symbols the claim fails: \<open>mapped_proteins\<close> counts protein
  rows, \<open>pathway_size\<close> counts gene symbols. Two rows with the symbol \<open>TP53\<close> in
  pathway \<open>1\<close> give two mapped proteins in a pathway of size one, in a store whose
  membership relation is consistent.
\<close>

theorem query_gene_set_duplicate_symbol_counterexample:
  "query_gene_set duplicate_symbol_store [''TP53''] =
     Inr [(''1'', \<lparr>pathway_id = ''1'', pathway_name = ''PW1'', mapped_proteins = 2,
                   pathway_size = 1, pathway_gene_set = {''TP53''}\<rparr>),
          (''2'', \<lparr>pathway_id = ''2'', pathway_name = ''PW2'', mapped_proteins = 1,
                   pathway_size = 1, pathway_gene_set = {''TP53''}\<rparr>)]"
  by (simp add: query_defs duplicate_symbol_store_def tp53_a_def tp53_b_def)

subsection \<open>C4: the keys of the enrichment dictionary\<close>

text \<open>
  Claim C4. Every entry of the dictionary returned by \<open>query_gene_set\<close> sits under
  the pathway identifier of its record, and its \<open>mapped_proteins\<close> is the number of
  matched protein rows that name this identifier, which is at least 1. An identifier
  that no matched protein names is not a key. The query of the empty gene set returns
  the empty dictionary.
\<close>

theorem query_gene_set_keys_matched:
  "(query_gene_set s G = Inr r \<and> (k, e) \<in> set r \<longrightarrow>
      pathway_id e = k \<and> mapped_proteins e = length (matched_in s G k) \<and> 1 \<le> mapped_proteins e) \<and>
   (query_gene_set s G = Inr r \<and> matched_in s G k = [] \<longrightarrow> k \<notin> fst ` set r) \<and>
   query_gene_set s [] = Inr []"
proof -
  have entry: "pathway_id e = k \<and> mapped_proteins e = length (matched_in s G k) \<and> 1 \<le> mapped_proteins e"
    if "query_gene_set s G = Inr r" and "(k, e) \<in> set r"
  proof -
    from query_gene_set_entry [OF that] obtain pw where
      "e = enrichment_record k (length (matched_in s G k)) pw" and "matched_in s G k \<noteq> []"
      by blast
    then show ?thesis
      by (cases "matched_in s G k") (simp_all add: enrichment_record_def)
  qed
  have absent: "k \<notin> fst ` set r" if "query_gene_set s G = Inr r" and "matched_in s G k = []"
  proof
    assume "k \<in> fst ` set r"
    then obtain e where "(k, e) \<in> set r" by auto
    from query_gene_set_entry [OF that(1) this] that(2) show False by blast
  qed
  have empty: "query_gene_set s [] = Inr []"
    by (simp add: query_gene_set_def pathway_counter_def query_proteins_in_hgnc_list_def Counter_def)
  from entry absent empty show ?thesis by blast
qed

theorem query_gene_set_keys_matched_witness:
  "query_gene_set example_store [''TP53''] = Inr [(''1'', expected_pw1), (''2'', expected_pw2)] \<and>
   (''2'', expected_pw2) \<in> set [(''1'', expected_pw1), (''2'', expected_pw2)] \<and>
   pathway_id expected_pw2 = ''2'' \<and>
   mapped_proteins expected_pw2 = length (matched_in example_store [''TP53''] ''2'') \<and>
   1 \<le> mapped_proteins expected_pw2 \<and>
   matched_in example_store [''TP53''] ''3'' = [] \<and>
   ''3'' \<notin> fst ` set [(''1'', expected_pw1), (''2'', expected_pw2)]"
proof -
  let ?r = "[(''1'', expected_pw1), (''2'', expected_pw2)]"
  have mem: "(''2'', expected_pw2) \<in> set ?r"
    by simp
  have none: "matched_in example_store [''TP53''] ''3'' = []"
    by (simp add: matched_in_def query_proteins_in_hgnc_list_def get_pathways_ids_def example_defs)
  from query_gene_set_keys_matched
      [where s = example_store and G = "[''TP53'']" and k = "''2''" and e = expected_pw2
         and r = ?r]
    example_query_result mem
  have entry: "pathway_id expected_pw2 = ''2'' \<and>
      mapped_proteins expected_pw2 = length (matched_in example_store [''TP53''] ''2'') \<and>
      1 \<le> mapped_proteins expected_pw2"
    by blast
  from query_gene_set_keys_matched
      [where s = example_store and G = "[''TP53'']" and k = "''3''" and e = expected_pw2
         and r = ?r]
    example_query_result none
  have absent: "''3'' \<notin> fst ` set ?r"
    by blast
  from example_query_result mem entry none absent show ?thesis
    by blast
qed

subsection \<open>C5: an identifier without a pathway row\<close>

text \<open>
  Claim C5, as the code has it. If a matched protein names a pathway identifier that
  no row of the pathway table carries, \<open>query_gene_set\<close> returns no dictionary, not even
  a partial one: it ends with an error, which nothing in the manager catches. When the
  identifiers of the pathway table are pairwise distinct, this error is the
  \<open>AttributeError\<close> of reading \<open>get_gene_set\<close> from the \<open>None\<close> that
  \<open>get_pathway_by_id\<close> answered; the code has no error of its own for a missing
  pathway.
\<close>

theorem query_gene_set_unresolved_identifier:
  assumes "p \<in> set (query_proteins_in_hgnc_list s G)"
    and "pid \<in> set (get_pathways_ids p)"
    and "\<forall>pw \<in> set (pathway_table s). standard_identifier pw \<noteq> pid"
  shows "(\<exists>e. query_gene_set s G = Inl e) \<and>
         (distinct (map standard_identifier (pathway_table s)) \<longrightarrow>
            query_gene_set s G = Inl AttributeError)"
proof -
  from assms(1,2) have "pid \<in> fst ` set (pathway_counter s G)"
    by (auto simp: pathway_counter_def keys_Counter)
  then obtain n where "(pid, n) \<in> set (pathway_counter s G)" by auto
  from enrich_absent [OF this get_pathway_by_id_None [OF assms(3)]]
  obtain e where e: "query_gene_set s G = Inl e"
    by (auto simp: query_gene_set_def)
  moreover have "e = AttributeError" if "distinct (map standard_identifier (pathway_table s))"
  proof (rule enrich_error)
    from that show "\<forall>k e'. get_pathway_by_id s k \<noteq> Inl e'"
      by (simp add: get_pathway_by_id_unique)
    from e show "enrich s (pathway_counter s G) [] = Inl e"
      by (simp add: query_gene_set_def)
  qed
  ultimately show ?thesis by simp
qed

theorem query_gene_set_unresolved_identifier_witness:
  "tp53_dangling \<in> set (query_proteins_in_hgnc_list dangling_store [''TP53'']) \<and>
   ''9'' \<in> set (get_pathways_ids tp53_dangling) \<and>
   distinct (map standard_identifier (pathway_table dangling_store)) \<and>
   query_gene_set dangling_store [''TP53''] = Inl AttributeError"
proof -
  have p: "tp53_dangling \<in> set (query_proteins_in_hgnc_list dangling_store [''TP53''])"
    by (simp add: query_proteins_in_hgnc_list_def dangling_store_def tp53_dangling_def)
  have pid: "''9'' \<in> set (get_pathways_ids tp53_dangling)"
    by (simp add: get_pathways_ids_def tp53_dangling_def)
  have none: "\<forall>pw \<in> set (pathway_table dangling_store). standard_identifier pw \<noteq> ''9''"
    by (simp add: dangling_store_def pw1_def)
  have uniq: "distinct (map standard_identifier (pathway_table dangling_store))"
    by (simp add: dangling_store_def)
  from query_gene_set_unresolved_identifier [OF p pid none] p pid uniq
  show ?thesis by simp
qed

text \<open>
  The claim as stated names a \<open>NotFoundError\<close>. The lookup of the missing identifier
  raises nothing and answers \<open>None\<close>; the error of the query is \<open>AttributeError\<close>.
\<close>

theorem query_gene_set_attribute_error_counterexample:
  "get_pathway_by_id dangling_store ''9'' = Inr None \<and>
   query_gene_set dangling_store [''TP53''] = Inl AttributeError"
  by (simp add: query_defs dangling_store_def tp53_dangling_def example_defs)

subsection \<open>C6: the gene distribution\<close>

text \<open>
  Claim C6, as the code has it. \<open>get_gene_distribution\<close> assigns to a gene symbol
  \<open>g\<close> the number of member rows with the symbol \<open>g\<close>, summed over all pathways. When
  no pathway has two member rows with the same symbol, this is the number of pathways
  whose membership contains \<open>g\<close>. A symbol is a key exactly when some pathway contains
  it, so symbols of no pathway and pathways without members contribute nothing.
\<close>

theorem get_gene_distribution_counts:
  "counter_get (get_gene_distribution s) g
      = (\<Sum>pw\<leftarrow>pathway_table s. count_list (map hgnc_symbol (proteins pw)) g) \<and>
   ((\<forall>pw \<in> set (pathway_table s). distinct (map hgnc_symbol (proteins pw))) \<longrightarrow>
      counter_get (get_gene_distribution s) g = length (pathways_with_gene s g)) \<and>
   (g \<in> fst ` set (get_gene_distribution s) \<longleftrightarrow> pathways_with_gene s g \<noteq> [])"
proof -
  have total: "counter_get (get_gene_distribution s) g
      = (\<Sum>pw\<leftarrow>pathway_table s. count_list (map hgnc_symbol (proteins pw)) g)"
    unfolding get_gene_distribution_def get_all_pathways_def counter_get_fold_count_genes
    by (simp add: counter_get_def)
  have once: "counter_get (get_gene_distribution s) g = length (pathways_with_gene s g)"
    if "\<forall>pw \<in> set (pathway_table s). distinct (map hgnc_symbol (proteins pw))"
  proof -
    from that have "map (\<lambda>pw. count_list (map hgnc_symbol (proteins pw)) g) (pathway_table s)
        = map (\<lambda>pw. if g \<in> get_gene_set pw then 1 else 0) (pathway_table s)"
      by (simp add: count_list_distinct get_gene_set_def)
    with total show ?thesis
      by (simp add: sum_list_indicator pathways_with_gene_def)
  qed
  have keys: "g \<in> fst ` set (get_gene_distribution s) \<longleftrightarrow> pathways_with_gene s g \<noteq> []"
    by (auto simp: get_gene_distribution_def get_all_pathways_def keys_fold_count_genes
        pathways_with_gene_def filter_empty_conv)
  from total once keys show ?thesis by blast
qed

theorem get_gene_distribution_counts_witness:
  "distinct (map hgnc_symbol (proteins pw1)) \<and> distinct (map hgnc_symbol (proteins pw2)) \<and>
   counter_get (get_gene_distribution example_store) ''TP53'' = 2 \<and>
   length (pathways_with_gene example_store ''TP53'') = 2 \<and>
   ''TP53'' \<in> fst ` set (get_gene_distribution example_store)"
proof -
  have d: "distinct (map hgnc_symbol (proteins pw1))" "distinct (map hgnc_symbol (proteins pw2))"
    by (simp_all add: example_defs)
  then have all: "\<forall>pw \<in> set (pathway_table example_store). distinct (map hgnc_symbol (proteins pw))"
    by (simp add: example_store_def)
  have n: "pathways_with_gene example_store ''TP53'' = [pw1, pw2]"
    by (simp add: pathways_with_gene_def get_gene_set_def example_defs)
  from get_gene_distribution_counts [of example_store "''TP53''"] d all n
  show ?thesis by simp
qed

text \<open>
  The claim as stated counts each pathway at most once per symbol. A pathway with two
  member rows of the symbol \<open>TP53\<close> is counted twice: the two pathways of this store
  that contain \<open>TP53\<close> give the count 3.
\<close>

theorem get_gene_distribution_duplicate_symbol_counterexample:
  "counter_get (get_gene_distribution duplicate_symbol_store) ''TP53'' = 3 \<and>
   length (pathways_with_gene duplicate_symbol_store ''TP53'') = 2"
  by (simp add: get_gene_distribution_def get_all_pathways_def count_genes_def counter_incr_def
      counter_get_def pathways_with_gene_def get_gene_set_def duplicate_symbol_store_def
      tp53_a_def tp53_b_def)

subsection \<open>C7: the name query and its limit\<close>




subsection \<open>C8: exported gene sets\<close>

text \<open>
  Claim C8. The dictionary returned by \<open>export_genesets\<close> has one entry per name, and
  the name of every pathway is a key. The name of a pathway that no later pathway of the
  table shares is mapped to exactly the set of the gene symbols of its proteins; so the
  entry of a name that several pathways share is the gene set of the last of them in
  retrieval order.
\<close>

theorem export_genesets_last_wins:
  "distinct (map fst (export_genesets s)) \<and>
   (pw \<in> set (pathway_table s) \<longrightarrow> name pw \<in> fst ` set (export_genesets s)) \<and>
   (pathway_table s = before @ pw # after \<and> (\<forall>q \<in> set after. name q \<noteq> name pw) \<longrightarrow>
      map_of (export_genesets s) (name pw) = Some (hgnc_symbol ` set (proteins pw)))"
proof -
  have "distinct (map fst (export_genesets s))"
    unfolding export_genesets_def by (rule fold_update_distinct) simp
  moreover have "name pw \<in> fst ` set (export_genesets s)" if "pw \<in> set (pathway_table s)"
    using that by (simp add: export_genesets_def fold_update_keys)
  moreover have "map_of (export_genesets s) (name pw) = Some (hgnc_symbol ` set (proteins pw))"
    if "pathway_table s = before @ pw # after" and "\<forall>q \<in> set after. name q \<noteq> name pw"
    unfolding export_genesets_def that(1) by (rule fold_update_last [OF that(2)])
  ultimately show ?thesis by blast
qed

theorem export_genesets_last_wins_witness:
  "pathway_table example_store = [] @ pw1 # [pw2] \<and>
   map_of (export_genesets example_store) ''PW1'' = Some {''TP53'', ''BRCA1''} \<and>
   pathway_table collision_store = [memberless_pw] @ namesake_pw # [] \<and>
   ''PW'' \<in> fst ` set (export_genesets collision_store) \<and>
   map_of (export_genesets collision_store) ''PW'' = Some {''TP53''}"
proof -
  have t1: "pathway_table example_store = [] @ pw1 # [pw2]"
    by (simp add: example_store_def)
  have l1: "\<forall>q \<in> set [pw2]. name q \<noteq> name pw1"
    by (simp add: pw1_def pw2_def)
  have t2: "pathway_table collision_store = [memberless_pw] @ namesake_pw # []"
    by (simp add: collision_store_def)
  have m2: "memberless_pw \<in> set (pathway_table collision_store)"
    by (simp add: collision_store_def)
  from export_genesets_last_wins [of example_store pw1 "[]" "[pw2]"]
    export_genesets_last_wins [of collision_store namesake_pw "[memberless_pw]" "[]"]
    export_genesets_last_wins [of collision_store memberless_pw]
    t1 l1 t2 m2
  show ?thesis
    by (simp add: pw1_def tp53_def brca1_def namesake_pw_def memberless_pw_def insert_commute)
qed

subsection \<open>C9: the pathway size distribution\<close>

text \<open>
  Claim C9. The dictionary returned by \<open>get_pathway_size_distribution\<close> has exactly
  one entry for every name of a pathway with at least one member and no other entry.
  Every value is the number of members of a pathway of that name with at least one
  member, so no value is 0; it is the number of members of the last such pathway in
  retrieval order.
\<close>

theorem get_pathway_size_distribution_entries:
  "distinct (map fst (get_pathway_size_distribution s)) \<and>
   fst ` set (get_pathway_size_distribution s)
     = name ` {pw \<in> set (pathway_table s). proteins pw \<noteq> []} \<and>
   ((k, v) \<in> set (get_pathway_size_distribution s) \<longrightarrow>
      v \<noteq> 0 \<and> (\<exists>pw \<in> set (pathway_table s). name pw = k \<and> proteins pw \<noteq> [] \<and> v = length (proteins pw))) \<and>
   (pathway_table s = before @ pw # after \<and> proteins pw \<noteq> [] \<and>
      (\<forall>q \<in> set after. proteins q \<noteq> [] \<longrightarrow> name q \<noteq> name pw) \<longrightarrow>
      map_of (get_pathway_size_distribution s) (name pw) = Some (length (proteins pw)))"
proof -
  let ?members = "\<lambda>pw. proteins pw \<noteq> []"
  have "distinct (map fst (get_pathway_size_distribution s))"
    unfolding get_pathway_size_distribution_def by (rule fold_update_distinct) simp
  moreover have "fst ` set (get_pathway_size_distribution s)
      = name ` {pw \<in> set (pathway_table s). proteins pw \<noteq> []}"
    by (simp add: get_pathway_size_distribution_def get_all_pathways_def fold_update_keys)
  moreover have "v \<noteq> 0 \<and> (\<exists>pw \<in> set (pathway_table s).
        name pw = k \<and> proteins pw \<noteq> [] \<and> v = length (proteins pw))"
    if "(k, v) \<in> set (get_pathway_size_distribution s)"
  proof -
    from that have "\<exists>pw \<in> set (filter ?members (pathway_table s)).
        name pw = k \<and> v = length (proteins pw)"
      unfolding get_pathway_size_distribution_def get_all_pathways_def
      by (rule fold_update_entry)
    then show ?thesis by auto
  qed
  moreover have "map_of (get_pathway_size_distribution s) (name pw) = Some (length (proteins pw))"
    if tab: "pathway_table s = before @ pw # after" and mem: "proteins pw \<noteq> []"
      and later: "\<forall>q \<in> set after. proteins q \<noteq> [] \<longrightarrow> name q \<noteq> name pw"
  proof -
    from tab mem have split: "filter ?members (get_all_pathways s)
        = filter ?members before @ pw # filter ?members after"
      by (simp add: get_all_pathways_def)
    from later have "\<forall>q \<in> set (filter ?members after). name q \<noteq> name pw"
      by simp
    then show ?thesis
      unfolding get_pathway_size_distribution_def split
      by (rule fold_update_last [where g = "\<lambda>pw. length (proteins pw)"])
  qed
  ultimately show ?thesis by blast
qed

theorem get_pathway_size_distribution_entries_witness:
  "(''PW1'', 2) \<in> set (get_pathway_size_distribution memberless_store) \<and>
   pathway_table memberless_store = [] @ pw1 # [pw3] \<and> proteins pw1 \<noteq> [] \<and> proteins pw3 = [] \<and>
   map_of (get_pathway_size_distribution memberless_store) ''PW1'' = Some 2 \<and>
   fst ` set (get_pathway_size_distribution memberless_store) = {''PW1''}"
proof -
  have e: "(''PW1'', 2) \<in> set (get_pathway_size_distribution memberless_store)"
    by (simp add: get_pathway_size_distribution_def get_all_pathways_def memberless_store_def
        pw1_def pw3_def)
  have t: "pathway_table memberless_store = [] @ pw1 # [pw3]"
    by (simp add: memberless_store_def)
  have m: "proteins pw1 \<noteq> []" "proteins pw3 = []"
    by (simp_all add: pw1_def pw3_def)
  have l: "\<forall>q \<in> set [pw3]. proteins q \<noteq> [] \<longrightarrow> name q \<noteq> name pw1"
    by (simp add: pw3_def)
  have img: "name ` {pw \<in> set (pathway_table memberless_store). proteins pw \<noteq> []} = {''PW1''}"
  proof -
    have "{pw \<in> set (pathway_table memberless_store). proteins pw \<noteq> []}
        = set (filter (\<lambda>pw. proteins pw \<noteq> []) (pathway_table memberless_store))"
      by simp
    also have "\<dots> = {pw1}"
      by (simp add: memberless_store_def pw1_def pw3_def)
    finally show ?thesis by (simp add: pw1_def)
  qed
  from get_pathway_size_distribution_entries [of memberless_store "''PW1''" 2 "[]" pw1 "[pw3]"]
    e t m l img
  show ?thesis by (simp add: pw1_def)
qed

subsection \<open>C10: pathways without members\<close>

text \<open>
  Claim C10, as the code has it. The name of a pathway without members is a key of the
  dictionary returned by \<open>export_genesets\<close>. It is mapped to the empty set when no later
  pathway of the table shares the name. \<open>get_pathway_size_distribution\<close> has no entry
  for a name all of whose pathways are without members.
\<close>

theorem export_genesets_keeps_memberless:
  "(pw \<in> set (pathway_table s) \<and> proteins pw = [] \<longrightarrow>
      name pw \<in> fst ` set (export_genesets s)) \<and>
   (pathway_table s = before @ pw # after \<and> proteins pw = [] \<and>
      (\<forall>q \<in> set after. name q \<noteq> name pw) \<longrightarrow>
      map_of (export_genesets s) (name pw) = Some {}) \<and>
   ((\<forall>q \<in> set (pathway_table s). name q = name pw \<longrightarrow> proteins q = []) \<longrightarrow>
      name pw \<notin> fst ` set (get_pathway_size_distribution s))"
proof -
  have "name pw \<in> fst ` set (export_genesets s)" if "pw \<in> set (pathway_table s)"
    using that by (simp add: export_genesets_def fold_update_keys)
  moreover have "map_of (export_genesets s) (name pw) = Some {}"
    if tab: "pathway_table s = before @ pw # after" and "proteins pw = []"
      and later: "\<forall>q \<in> set after. name q \<noteq> name pw"
  proof -
    have "map_of (export_genesets s) (name pw) = Some (hgnc_symbol ` set (proteins pw))"
      unfolding export_genesets_def tab by (rule fold_update_last [OF later])
    with that(2) show ?thesis by simp
  qed
  moreover have "name pw \<notin> fst ` set (get_pathway_size_distribution s)"
    if "\<forall>q \<in> set (pathway_table s). name q = name pw \<longrightarrow> proteins q = []"
    using that
    by (auto simp: get_pathway_size_distribution_def get_all_pathways_def fold_update_keys)
  ultimately show ?thesis by blast
qed

theorem export_genesets_keeps_memberless_witness:
  "pw3 \<in> set (pathway_table memberless_store) \<and> proteins pw3 = [] \<and>
   pathway_table memberless_store = [pw1] @ pw3 # [] \<and>
   ''PW3'' \<in> fst ` set (export_genesets memberless_store) \<and>
   map_of (export_genesets memberless_store) ''PW3'' = Some {} \<and>
   ''PW3'' \<notin> fst ` set (get_pathway_size_distribution memberless_store)"
proof -
  have t: "pathway_table memberless_store = [pw1] @ pw3 # []"
    by (simp add: memberless_store_def)
  have i: "pw3 \<in> set (pathway_table memberless_store)"
    by (simp add: memberless_store_def)
  have m: "proteins pw3 = []"
    by (simp add: pw3_def)
  have a: "\<forall>q \<in> set (pathway_table memberless_store). name q = name pw3 \<longrightarrow> proteins q = []"
    by (simp add: memberless_store_def pw1_def pw3_def)
  from export_genesets_keeps_memberless [of pw3 memberless_store "[pw1]" "[]"] t i m a
  show ?thesis by (simp add: pw3_def)
qed

text \<open>
  The claim as stated maps the name of every pathway without members to the empty set.
  When a later pathway with members shares the name, the entry is the gene set of that
  pathway.
\<close>

theorem export_genesets_collision_counterexample:
  "memberless_pw \<in> set (pathway_table collision_store) \<and> proteins memberless_pw = [] \<and>
   map_of (export_genesets collision_store) (name memberless_pw) = Some {''TP53''}"
  by (simp add: export_genesets_def collision_store_def memberless_pw_def namesake_pw_def tp53_def)

end
